theory Spec2Isabelle
  imports Complex_Main "HOL-Library.AList"
begin

section \<open>The emotion map: sampler, cue emitter and renderer of script.js\<close>

text \<open>
  The page samples facial-expression scores on a timer, appends each reading to a
  history, beeps for the dominant emotion and paints the history as a heat map.
  The model follows \<^verbatim>\<open>src/script.js\<close> function by function.

  Conventions of the embedding.
  \<^item> A finite JavaScript number is the \<^typ>\<open>real\<close> it denotes (the two zeros are one).
    A decimal literal of the script denotes the nearest double (\<open>double\<close>), and the
    products and sums of the script round to the nearest double, ties to even, and
    overflow to an infinity (\<open>js_mul\<close>, \<open>js_add\<close>); their results have NaN and the
    infinities beside the reals. Comparisons are exact. The interpolation \<open>lerp\<close> is
    p5's and is taken over the reals, as the specification describes it.
  \<^item> A property read that may find nothing is an \<^typ>\<open>'a option\<close> (\<open>None\<close> is
    \<^verbatim>\<open>undefined\<close>); \<^verbatim>\<open>x || 0\<close> is \<open>or_zero\<close>.
  \<^item> The global variables of the script and the state of the libraries it drives (the
    p5 canvas size, the oscillators created, the console, the scroll position) are the
    fields of one record, passed through every function.
  \<^item> The calls into p5, p5.sound and face-api are taken to return normally; what
    face-api's detection does (resolve with a face, resolve with nothing, throw) is an
    input of the sampling tick. p5's \<^verbatim>\<open>resizeCanvas\<close> redraws, which runs the
    script's \<^verbatim>\<open>draw\<close>.
\<close>

subsection \<open>Constants\<close>

definition EMOTIONS :: "string list" where
  "EMOTIONS = [''neutral'', ''happy'', ''sad'', ''angry'', ''fearful'', ''disgusted'', ''surprised'']"

definition SAMPLE_INTERVAL :: nat where
  "SAMPLE_INTERVAL = 200"

definition COL_WIDTH :: nat where
  "COL_WIDTH = 6"

text \<open>The own properties of the object literal \<^verbatim>\<open>EMOTION_FREQS\<close>.\<close>

definition EMOTION_FREQS :: "(string \<times> real) list" where
  "EMOTION_FREQS =
     [(''neutral'', 220), (''happy'', 880), (''sad'', 260), (''angry'', 440),
      (''fearful'', 600), (''disgusted'', 320), (''surprised'', 700)]"

subsection \<open>JavaScript values and property reads\<close>

text \<open>
  What \<^verbatim>\<open>EMOTION_FREQS[name]\<close> can evaluate to: \<^verbatim>\<open>undefined\<close>, one of the
  numbers of the table, or a member inherited from \<^verbatim>\<open>Object.prototype\<close> (a function,
  or the prototype object itself for \<^verbatim>\<open>__proto__\<close>), kept by its name.
\<close>

datatype js_value = Undefined | Number real | Inherited string

text \<open>The result of an arithmetic operation: NaN, an infinity or a finite number.\<close>

datatype number = NaN | PosInf | NegInf | Num real

subsection \<open>Double-precision arithmetic\<close>

text \<open>
  The largest power of two that is at most \<open>x\<close>, for \<open>x > 0\<close>: halve while \<open>x\<close> is at
  least 2, double while it is below 1.
\<close>

function scale_up :: "real \<Rightarrow> real \<Rightarrow> real" where
  "scale_up x q = (if 2 \<le> x then scale_up (x / 2) (2 * q) else q)"
  by pat_completeness auto
termination
proof (relation "measure (\<lambda>(x, q). nat \<lceil>x\<rceil>)")
  show "wf (measure (\<lambda>(x, q). nat \<lceil>x\<rceil>))" by simp
next
  fix x q :: real
  assume "2 \<le> x"
  then have "\<lceil>x / 2\<rceil> < \<lceil>x\<rceil>" by linarith
  moreover from \<open>2 \<le> x\<close> have "0 < \<lceil>x\<rceil>" by linarith
  ultimately show "((x / 2, 2 * q), (x, q)) \<in> measure (\<lambda>(x, q). nat \<lceil>x\<rceil>)" by simp
qed

function scale_down :: "real \<Rightarrow> real \<Rightarrow> real" where
  "scale_down x q = (if 0 < x \<and> x < 1 then scale_down (2 * x) (q / 2) else q)"
  by pat_completeness auto
termination
proof (relation "measure (\<lambda>(x, q). nat \<lceil>1 / x\<rceil>)")
  show "wf (measure (\<lambda>(x, q). nat \<lceil>1 / x\<rceil>))" by simp
next
  fix x q :: real
  assume a: "0 < x \<and> x < 1"
  then have "1 < 1 / x" by simp
  have half: "\<lceil>y / 2\<rceil> < \<lceil>y\<rceil>" if "1 < y" for y :: real
  proof -
    from that have "1 < \<lceil>y\<rceil>" by (simp add: less_ceiling_iff)
    then have two: "(2::real) \<le> of_int \<lceil>y\<rceil>" by linarith
    have "y \<le> of_int \<lceil>y\<rceil>" by (rule le_of_int_ceiling)
    with two have "y / 2 \<le> of_int \<lceil>y\<rceil> - 1" by linarith
    then have "y / 2 \<le> of_int (\<lceil>y\<rceil> - 1)" by simp
    then have "\<lceil>y / 2\<rceil> \<le> \<lceil>y\<rceil> - 1" by (simp only: ceiling_le_iff)
    then show ?thesis by simp
  qed
  have eq: "1 / (2 * x) = (1 / x) / 2" by simp
  have less: "\<lceil>1 / (2 * x)\<rceil> < \<lceil>1 / x\<rceil>"
    unfolding eq using \<open>1 < 1 / x\<close> by (rule half)
  from \<open>1 < 1 / x\<close> have "(0::real) < 1 / x" by linarith
  then have "0 < \<lceil>1 / x\<rceil>" by (simp only: less_ceiling_iff of_int_0)
  with less have "nat \<lceil>1 / (2 * x)\<rceil> < nat \<lceil>1 / x\<rceil>" by linarith
  then show "((2 * x, q / 2), (x, q)) \<in> measure (\<lambda>(x, q). nat \<lceil>1 / x\<rceil>)"
    by (simp only: in_measure split_conv)
qed

declare scale_up.simps [simp del] scale_down.simps [simp del]

definition binade :: "real \<Rightarrow> real" where
  "binade x = (if 1 \<le> x then scale_up x 1 else scale_down x 1)"

text \<open>Rounding to the nearest integer, a tie to the even one.\<close>

definition round_half_even :: "real \<Rightarrow> int" where
  "round_half_even n =
     (let f = \<lfloor>n\<rfloor>; d = n - of_int f
      in if d < 1/2 then f else if 1/2 < d then f + 1 else if even f then f else f + 1)"

text \<open>The smallest positive normal double and the largest finite one.\<close>

definition MIN_NORMAL :: real where
  "MIN_NORMAL = 1 / 2 ^ 1022"

definition MAX_VALUE :: real where
  "MAX_VALUE = (2 ^ 53 - 1) * 2 ^ 971"

text \<open>
  The spacing of the doubles around \<open>x\<close>: 52 binary places below the leading bit, and
  the fixed spacing of the subnormal numbers below \<open>MIN_NORMAL\<close>.
\<close>

definition ulp :: "real \<Rightarrow> real" where
  "ulp x = max (binade \<bar>x\<bar>) MIN_NORMAL / 2 ^ 52"

text \<open>
  The double nearest to \<open>x\<close>, with the exponent range unbounded above: the value a
  decimal literal denotes, and the result of an operation before the overflow test.
\<close>

definition double :: "real \<Rightarrow> real" where
  "double x = (if x = 0 then 0 else of_int (round_half_even (x / ulp x)) * ulp x)"

text \<open>The result of an operation whose exact value is \<open>x\<close>.\<close>

definition rounded :: "real \<Rightarrow> number" where
  "rounded x =
     (let r = double x
      in if MAX_VALUE < \<bar>r\<bar> then (if 0 < r then PosInf else NegInf) else Num r)"

text \<open>\<^verbatim>\<open>a * b\<close> and \<^verbatim>\<open>a + b\<close> on numbers.\<close>

fun js_mul :: "number \<Rightarrow> number \<Rightarrow> number" where
  "js_mul NaN y = NaN"
| "js_mul x NaN = NaN"
| "js_mul (Num a) (Num b) = rounded (a * b)"
| "js_mul (Num a) y = (if a = 0 then NaN else if (0 < a) = (y = PosInf) then PosInf else NegInf)"
| "js_mul x (Num b) = (if b = 0 then NaN else if (0 < b) = (x = PosInf) then PosInf else NegInf)"
| "js_mul x y = (if x = y then PosInf else NegInf)"

fun js_add :: "number \<Rightarrow> number \<Rightarrow> number" where
  "js_add NaN y = NaN"
| "js_add x NaN = NaN"
| "js_add (Num a) (Num b) = rounded (a + b)"
| "js_add (Num a) y = y"
| "js_add x (Num b) = x"
| "js_add x y = (if x = y then x else NaN)"

subsection \<open>Property reads\<close>

text \<open>
  An object literal inherits from \<^verbatim>\<open>Object.prototype\<close>; a bracket read that finds no
  own property continues there. These are the property names of \<^verbatim>\<open>Object.prototype\<close>
  in a browser.
\<close>

definition Object_prototype :: "string list" where
  "Object_prototype =
     [''constructor'', ''hasOwnProperty'', ''isPrototypeOf'', ''propertyIsEnumerable'',
      ''toLocaleString'', ''toString'', ''valueOf'', ''__proto__'',
      ''__defineGetter__'', ''__defineSetter__'', ''__lookupGetter__'', ''__lookupSetter__'']"

definition EMOTION_FREQS_get :: "string \<Rightarrow> js_value" where
  "EMOTION_FREQS_get name =
     (case map_of EMOTION_FREQS name of
        Some f \<Rightarrow> Number f
      | None \<Rightarrow> if name \<in> set Object_prototype then Inherited name else Undefined)"

text \<open>Truthiness: \<^verbatim>\<open>undefined\<close> and \<open>0\<close> are falsy, functions and objects are truthy.\<close>

fun truthy :: "js_value \<Rightarrow> bool" where
  "truthy Undefined = False"
| "truthy (Number x) = (x \<noteq> 0)"
| "truthy (Inherited _) = True"

text \<open>\<^verbatim>\<open>a || b\<close> on values.\<close>

definition js_or :: "js_value \<Rightarrow> js_value \<Rightarrow> js_value" where
  "js_or a b = (if truthy a then a else b)"

text \<open>
  The conversion of a value to a number that \<^verbatim>\<open>*\<close> applies to its operand: a function
  or an object converts to NaN, and so does \<^verbatim>\<open>undefined\<close>.
\<close>

fun to_number :: "js_value \<Rightarrow> number" where
  "to_number (Number a) = Num a"
| "to_number Undefined = NaN"
| "to_number (Inherited _) = NaN"

text \<open>
  \<^verbatim>\<open>x || 0\<close> where \<open>x\<close> is a number or \<^verbatim>\<open>undefined\<close>: the falsy values
  (\<^verbatim>\<open>undefined\<close>, \<open>0\<close>) give \<open>0\<close>.
\<close>

definition or_zero :: "real option \<Rightarrow> real" where
  "or_zero x = (case x of None \<Rightarrow> 0 | Some v \<Rightarrow> if v = 0 then 0 else v)"

subsection \<open>Samples, detections, state\<close>

text \<open>
  A snapshot is the object \<^verbatim>\<open>{}\<close> filled by assignments: its own properties in
  insertion order. Assigning to a name it has replaces the value in place
  (\<^const>\<open>AList.update\<close>); reading is \<^const>\<open>map_of\<close>. The names read and written are the
  seven of \<open>EMOTIONS\<close>, none of them a name of \<open>Object_prototype\<close>.
\<close>

type_synonym snapshot = "(string \<times> real) list"

type_synonym expressions = "(string \<times> real) list"

text \<open>
  The result of \<^verbatim>\<open>detectSingleFace(...).withFaceExpressions()\<close>: the call throws, or
  resolves with \<^verbatim>\<open>undefined\<close> (no face), or with a detection object whose
  \<^verbatim>\<open>expressions\<close> property may be missing.
\<close>

datatype detection = Detection "expressions option"

datatype detect_outcome = Threw | Resolved "detection option"

datatype osc_call =
    Freq number
  | Amp number
  | AmpRamp number real
  | AmpRampAt number real real
  | Start
  | Stop real

text \<open>An oscillator: the wave form it was created with and the calls made on it.\<close>

type_synonym oscillator = "string \<times> osc_call list"

record window =
  innerWidth :: nat
  innerHeight :: nat

record state =
  emotionHistory :: "snapshot list"
  canvasHeight :: "nat option"
  audioInitialized :: bool
  width :: nat
  height :: "nat option"
  oscillators :: "oscillator list"
  console :: "string list"
  scrollX :: nat

text \<open>
  The state when the script has been loaded: the globals as the script initialises them;
  the size of p5's canvas before \<^verbatim>\<open>setup\<close> is p5's business and is a parameter.
\<close>

definition script_loaded :: "nat \<Rightarrow> nat option \<Rightarrow> state" where
  "script_loaded w h =
     \<lparr>emotionHistory = [], canvasHeight = None, audioInitialized = False,
      width = w, height = h, oscillators = [], console = [], scrollX = 0\<rparr>"

subsection \<open>Sound\<close>

text \<open>
  \<^verbatim>\<open>mousePressed\<close>. The flag is set before the unlock calls; if they throw, the
  error is caught and logged, and the second message is logged either way.
\<close>

definition mousePressed :: "bool \<Rightarrow> state \<Rightarrow> state" where
  "mousePressed unlock_throws s =
     (if \<not> audioInitialized s then
        s\<lparr>audioInitialized := True,
          console := console s
            @ (if unlock_throws then [''Audio init error:''] else [])
            @ [''Audio initialized'']\<rparr>
      else s)"

definition triggerBeepForEmotion :: "string \<Rightarrow> real \<Rightarrow> state \<Rightarrow> state" where
  "triggerBeepForEmotion name intensity s =
     (if \<not> audioInitialized s then s
      else
        let baseFreq = js_or (EMOTION_FREQS_get name) (Number 440);
            freq = js_mul (to_number baseFreq)
                     (js_add (Num (double (8/10)))
                        (js_mul (Num intensity) (Num (double (4/10)))));
            amp = js_add (Num (double (5/100))) (js_mul (Num intensity) (Num (double (25/100))));
            osc = (''sine'',
                   [Freq freq, Amp (Num 0), Start,
                    AmpRamp amp (double (1/100)),
                    AmpRampAt (Num 0) (double (15/100)) (double (5/100)),
                    Stop (double (25/100))])
        in s\<lparr>oscillators := oscillators s @ [osc]\<rparr>)"

subsection \<open>Drawing\<close>

text \<open>
  A colour is the triple that the script passes to p5's \<^verbatim>\<open>color\<close> under
  \<^verbatim>\<open>colorMode(HSB, 360, 100, 100, 100)\<close>.
\<close>

datatype color = HSB (hue: real) (saturation: real) (brightness: real)

text \<open>
  Modelled from the spec: \<^verbatim>\<open>lerp\<close> is p5's and not part of the script; the
  specification calls it linear interpolation between a low bound and a high bound.
\<close>

definition lerp :: "real \<Rightarrow> real \<Rightarrow> real \<Rightarrow> real" where
  "lerp start stop amt = amt * (stop - start) + start"

definition getEmotionColor :: "string \<Rightarrow> real \<Rightarrow> color" where
  "getEmotionColor name v =
     (let b = lerp 10 100 v
      in if name = ''neutral'' then HSB 0 0 (lerp 30 80 v)
         else if name = ''happy'' then HSB 60 100 b
         else if name = ''sad'' then HSB 220 80 b
         else if name = ''angry'' then HSB 0 100 b
         else if name = ''fearful'' then HSB 280 80 b
         else if name = ''disgusted'' then HSB 130 80 b
         else if name = ''surprised'' then HSB 180 80 b
         else HSB 0 0 b)"

text \<open>
  The cells \<^verbatim>\<open>draw\<close> paints: for time step \<open>t\<close> and row \<open>e\<close>, the left edge
  \<open>t * COL_WIDTH\<close>, the row and the colour.
\<close>

definition draw_cells :: "state \<Rightarrow> (nat \<times> nat \<times> color) list" where
  "draw_cells s =
     concat (map (\<lambda>t.
       map (\<lambda>e.
         (t * COL_WIDTH, e,
          getEmotionColor (EMOTIONS ! e) (or_zero (map_of (emotionHistory s ! t) (EMOTIONS ! e)))))
         [0 ..< length EMOTIONS])
       [0 ..< length (emotionHistory s)])"

text \<open>
  The effect of \<^verbatim>\<open>draw\<close> on the state: nothing when the history is empty,
  otherwise the page is scrolled to \<^verbatim>\<open>Math.max(0, width - window.innerWidth)\<close>.
\<close>

definition draw :: "window \<Rightarrow> state \<Rightarrow> state" where
  "draw win s =
     (if length (emotionHistory s) = 0 then s
      else s\<lparr>scrollX := nat (max 0 (int (width s) - int (innerWidth win)))\<rparr>)"

subsection \<open>The sampling tick\<close>

text \<open>The three \<^verbatim>\<open>EMOTIONS.forEach\<close> loops that fill the snapshot.\<close>

definition zeros :: snapshot where
  "zeros = fold (\<lambda>name snapshot. AList.update name 0 snapshot) EMOTIONS []"

fun take_snapshot :: "detect_outcome \<Rightarrow> snapshot" where
  "take_snapshot (Resolved (Some (Detection (Some ex)))) =
     fold (\<lambda>name snapshot. AList.update name (or_zero (map_of ex name)) snapshot) EMOTIONS []"
| "take_snapshot (Resolved (Some (Detection None))) = zeros"
| "take_snapshot (Resolved None) = zeros"
| "take_snapshot Threw = zeros"

text \<open>
  The loop over \<open>EMOTIONS\<close> that looks for the dominant emotion; the pair is
  (\<^verbatim>\<open>bestName\<close>, \<^verbatim>\<open>bestVal\<close>), \<open>None\<close> for \<^verbatim>\<open>null\<close>.
\<close>

fun best_loop :: "string list \<Rightarrow> snapshot \<Rightarrow> string option \<times> real \<Rightarrow> string option \<times> real" where
  "best_loop [] snapshot best = best"
| "best_loop (name # names) snapshot (bestName, bestVal) =
     (let v = or_zero (map_of snapshot name)
      in if v > bestVal then best_loop names snapshot (Some name, v)
         else best_loop names snapshot (bestName, bestVal))"

definition dominant :: "snapshot \<Rightarrow> string option \<times> real" where
  "dominant snapshot = best_loop EMOTIONS snapshot (None, 0)"

text \<open>
  \<^verbatim>\<open>if (bestName && bestVal > 0.2) triggerBeepForEmotion(bestName, bestVal)\<close>:
  \<^verbatim>\<open>null\<close> and the empty string are falsy.
\<close>

definition beep_for_dominant :: "snapshot \<Rightarrow> state \<Rightarrow> state" where
  "beep_for_dominant snapshot s =
     (case dominant snapshot of
        (None, bestVal) \<Rightarrow> s
      | (Some bestName, bestVal) \<Rightarrow>
          if bestName \<noteq> [] \<and> bestVal > double (2/10)
          then triggerBeepForEmotion bestName bestVal s
          else s)"

text \<open>
  p5's \<^verbatim>\<open>resizeCanvas(w, h)\<close>: the canvas takes the size it is given and is redrawn,
  which runs \<^verbatim>\<open>draw\<close>.
\<close>

definition resizeCanvas :: "nat \<Rightarrow> nat option \<Rightarrow> window \<Rightarrow> state \<Rightarrow> state" where
  "resizeCanvas w h win s = draw win (s\<lparr>width := w, height := h\<rparr>)"

definition neededWidth :: "nat \<Rightarrow> nat \<Rightarrow> nat" where
  "neededWidth viewportWidth n = max viewportWidth (n * COL_WIDTH)"

text \<open>
  One run of the timer callback, after the detection has settled with \<open>outcome\<close>.
  \<open>has_resizeCanvas\<close> is \<^verbatim>\<open>typeof resizeCanvas === 'function'\<close>.
\<close>

definition tick :: "window \<Rightarrow> bool \<Rightarrow> detect_outcome \<Rightarrow> state \<Rightarrow> state" where
  "tick win has_resizeCanvas outcome s =
     (let snapshot = take_snapshot outcome;
          s1 = s\<lparr>emotionHistory := emotionHistory s @ [snapshot]\<rparr>;
          s2 = beep_for_dominant snapshot s1;
          needed = neededWidth (innerWidth win) (length (emotionHistory s2))
      in if has_resizeCanvas \<and> width s2 \<noteq> needed
         then resizeCanvas needed (canvasHeight s2) win s2
         else s2)"

subsection \<open>Setup and the resize handler\<close>

text \<open>\<^verbatim>\<open>setup\<close> of the script (the name is reserved in theories).\<close>

definition p5_setup :: "window \<Rightarrow> state \<Rightarrow> state" where
  "p5_setup win s =
     (let s1 = s\<lparr>canvasHeight := Some (innerHeight win)\<rparr>
      in s1\<lparr>width := innerWidth win, height := canvasHeight s1\<rparr>)"

definition windowResized :: "window \<Rightarrow> state \<Rightarrow> state" where
  "windowResized win s =
     (let s1 = s\<lparr>canvasHeight := Some (innerHeight win)\<rparr>;
          needed = neededWidth (innerWidth win) (length (emotionHistory s1))
      in resizeCanvas needed (canvasHeight s1) win s1)"

subsection \<open>The page as a machine\<close>

text \<open>The callbacks the browser and p5 invoke, each with what it reads from outside.\<close>

datatype event =
    Setup window
  | MousePressed bool
  | Tick window bool detect_outcome
  | Draw window
  | WindowResized window

fun step :: "event \<Rightarrow> state \<Rightarrow> state" where
  "step (Setup win) s = p5_setup win s"
| "step (MousePressed unlock_throws) s = mousePressed unlock_throws s"
| "step (Tick win has_resizeCanvas outcome) s = tick win has_resizeCanvas outcome s"
| "step (Draw win) s = draw win s"
| "step (WindowResized win) s = windowResized win s"

definition run :: "event list \<Rightarrow> state \<Rightarrow> state" where
  "run evs s = fold step evs s"

fun is_tick :: "event \<Rightarrow> bool" where
  "is_tick (Tick _ _ _) = True"
| "is_tick _ = False"

subsection \<open>Notions used in the statements\<close>

text \<open>The value \<^verbatim>\<open>snapshot[name] || 0\<close> that the cue loop and \<^verbatim>\<open>draw\<close> read.\<close>

definition reading :: "snapshot \<Rightarrow> string \<Rightarrow> real" where
  "reading snapshot name = or_zero (map_of snapshot name)"

text \<open>The snapshots that the ticks of an event sequence take, in order.\<close>

fun samples_of :: "event list \<Rightarrow> snapshot list" where
  "samples_of [] = []"
| "samples_of (Tick win has_resizeCanvas outcome # evs) = take_snapshot outcome # samples_of evs"
| "samples_of (ev # evs) = samples_of evs"

text \<open>
  The assumption on the detection library: every score it reports for one of the seven
  labels lies between 0 and 1.
\<close>

fun scores_in_unit_interval :: "detect_outcome \<Rightarrow> bool" where
  "scores_in_unit_interval (Resolved (Some (Detection (Some ex)))) =
     list_all (\<lambda>name. case map_of ex name of None \<Rightarrow> True | Some v \<Rightarrow> 0 \<le> v \<and> v \<le> 1) EMOTIONS"
| "scores_in_unit_interval outcome = True"

fun event_scores_in_unit_interval :: "event \<Rightarrow> bool" where
  "event_scores_in_unit_interval (Tick win has_resizeCanvas outcome) = scores_in_unit_interval outcome"
| "event_scores_in_unit_interval ev = True"

text \<open>
  The events that can follow \<^verbatim>\<open>setup\<close> while the viewport is \<open>vw\<close> pixels wide:
  any but \<^verbatim>\<open>setup\<close> itself (p5 calls it once), the ticks and resize handlers reading
  that width.
\<close>

fun at_viewport_width :: "nat \<Rightarrow> event \<Rightarrow> bool" where
  "at_viewport_width vw (Setup win) = False"
| "at_viewport_width vw (Tick win has_resizeCanvas outcome) = (innerWidth win = vw)"
| "at_viewport_width vw (WindowResized win) = (innerWidth win = vw)"
| "at_viewport_width vw ev = True"

text \<open>The widths of the canvas after each event of a sequence.\<close>

fun widths :: "event list \<Rightarrow> state \<Rightarrow> nat list" where
  "widths [] s = []"
| "widths (ev # evs) s = width (step ev s) # widths evs (step ev s)"

text \<open>
  The expressions of the worked example: \<open>happy\<close> at the number that \<^verbatim>\<open>0.9\<close>
  denotes, every other label at 0.
\<close>

definition happy_sample :: expressions where
  "happy_sample =
     [(''neutral'', 0), (''happy'', double (9/10)), (''sad'', 0), (''angry'', 0),
      (''fearful'', 0), (''disgusted'', 0), (''surprised'', 0)]"

text \<open>
  A sample is complete when it has exactly the seven labels, in the order of \<open>EMOTIONS\<close>,
  each with a value between 0 and 1.
\<close>

definition complete_sample :: "snapshot \<Rightarrow> bool" where
  "complete_sample snapshot =
     (map fst snapshot = EMOTIONS \<and> list_all (\<lambda>v. 0 \<le> v \<and> v \<le> 1) (map snd snapshot))"

section \<open>Properties\<close>

subsection \<open>Snapshots and the dominant-emotion loop\<close>

text \<open>
  The lemmas on the loop are by induction on the list of names, with the running pair
  generalised.
\<close>

lemma EMOTIONS_nonempty_names: "name \<in> set EMOTIONS \<Longrightarrow> name \<noteq> []"
  by (auto simp: EMOTIONS_def)

lemma zeros_eq: "zeros = map (\<lambda>name. (name, 0)) EMOTIONS"
  by (simp add: zeros_def EMOTIONS_def)

lemma take_snapshot_face:
  "take_snapshot (Resolved (Some (Detection (Some ex)))) =
     map (\<lambda>name. (name, or_zero (map_of ex name))) EMOTIONS"
  by (simp add: EMOTIONS_def)

lemma or_zero_Some [simp]: "or_zero (Some v) = v"
  by (simp add: or_zero_def)

lemma or_zero_None [simp]: "or_zero None = 0"
  by (simp add: or_zero_def)

text \<open>\<^verbatim>\<open>bestVal\<close> never decreases during the loop and bounds every value read.\<close>

lemma best_loop_ge: "snd best \<le> snd (best_loop names snapshot best)"
proof (induction names arbitrary: best)
  case Nil
  then show ?case by simp
next
  case (Cons name names)
  obtain bn bv where b: "best = (bn, bv)" by (cases best)
  show ?case
  proof (cases "or_zero (map_of snapshot name) > bv")
    case True
    with Cons [of "(Some name, or_zero (map_of snapshot name))"] b show ?thesis
      by (simp add: Let_def)
  next
    case False
    with Cons [of "(bn, bv)"] b show ?thesis by (simp add: Let_def)
  qed
qed

lemma best_loop_upper:
  "name \<in> set names \<Longrightarrow> or_zero (map_of snapshot name) \<le> snd (best_loop names snapshot best)"
proof (induction names arbitrary: best)
  case Nil
  then show ?case by simp
next
  case (Cons n names)
  obtain bn bv where b: "best = (bn, bv)" by (cases best)
  show ?case
  proof (cases "name = n")
    case True
    show ?thesis
    proof (cases "or_zero (map_of snapshot n) > bv")
      case T: True
      from best_loop_ge [of "(Some n, or_zero (map_of snapshot n))" names snapshot]
      show ?thesis using True T b by (simp add: Let_def)
    next
      case F: False
      from best_loop_ge [of "(bn, bv)" names snapshot]
      show ?thesis using True F b by (simp add: Let_def)
    qed
  next
    case False
    with Cons.prems have "name \<in> set names" by simp
    from Cons.IH [OF this] show ?thesis using b by (simp add: Let_def)
  qed
qed

text \<open>Where no value exceeds \<^verbatim>\<open>bestVal\<close>, the loop leaves the pair as it is.\<close>

lemma best_loop_unchanged:
  "\<forall>name\<in>set names. or_zero (map_of snapshot name) \<le> bv \<Longrightarrow>
   best_loop names snapshot (bn, bv) = (bn, bv)"
  by (induction names) (auto simp: Let_def)

text \<open>The first position that reaches the maximum wins, if it exceeds the starting value.\<close>

lemma best_loop_first_max:
  assumes "i < length names"
    and "\<forall>j<length names. or_zero (map_of snapshot (names ! j)) \<le> or_zero (map_of snapshot (names ! i))"
    and "\<forall>j<i. or_zero (map_of snapshot (names ! j)) < or_zero (map_of snapshot (names ! i))"
    and "bv < or_zero (map_of snapshot (names ! i))"
  shows "best_loop names snapshot (bn, bv) = (Some (names ! i), or_zero (map_of snapshot (names ! i)))"
  using assms
proof (induction names arbitrary: i bn bv)
  case Nil
  then show ?case by simp
next
  case (Cons n names)
  let ?val = "\<lambda>x. or_zero (map_of snapshot x)"
  show ?case
  proof (cases i)
    case 0
    have "\<forall>name\<in>set names. ?val name \<le> ?val n"
    proof
      fix name assume "name \<in> set names"
      then obtain j where "j < length names" "names ! j = name"
        by (auto simp: in_set_conv_nth)
      with Cons.prems(2) [rule_format, of "Suc j"] 0 show "?val name \<le> ?val n" by simp
    qed
    then have "best_loop names snapshot (Some n, ?val n) = (Some n, ?val n)"
      by (rule best_loop_unchanged)
    with 0 Cons.prems(4) show ?thesis by (simp add: Let_def)
  next
    case (Suc k)
    have k: "k < length names" using Cons.prems(1) Suc by simp
    have le: "\<forall>j<length names. ?val (names ! j) \<le> ?val (names ! k)"
    proof (intro allI impI)
      fix j assume "j < length names"
      with Cons.prems(2) [rule_format, of "Suc j"] Suc show "?val (names ! j) \<le> ?val (names ! k)"
        by simp
    qed
    have lt: "\<forall>j<k. ?val (names ! j) < ?val (names ! k)"
    proof (intro allI impI)
      fix j assume "j < k"
      with Cons.prems(3) [rule_format, of "Suc j"] Suc show "?val (names ! j) < ?val (names ! k)"
        by simp
    qed
    have n_lt: "?val n < ?val (names ! k)"
      using Cons.prems(3) [rule_format, of 0] Suc by simp
    show ?thesis
    proof (cases "?val n > bv")
      case True
      from Cons.IH [OF k le lt n_lt, of "Some n"] True Suc show ?thesis
        by (simp add: Let_def)
    next
      case False
      from Cons.prems(4) Suc have "bv < ?val (names ! k)" by simp
      from Cons.IH [OF k le lt this, of bn] False Suc show ?thesis
        by (simp add: Let_def)
    qed
  qed
qed

text \<open>When \<^verbatim>\<open>bestVal\<close> has moved, \<^verbatim>\<open>bestName\<close> is a name of the list with that value.\<close>

lemma best_loop_name:
  "best_loop names snapshot (bn, bv) = (r, m) \<Longrightarrow> bv < m \<Longrightarrow>
   \<exists>name\<in>set names. r = Some name \<and> or_zero (map_of snapshot name) = m"
proof (induction names arbitrary: bn bv)
  case Nil
  then show ?case by simp
next
  case (Cons n names)
  show ?case
  proof (cases "or_zero (map_of snapshot n) > bv")
    case True
    with Cons.prems have eq: "best_loop names snapshot (Some n, or_zero (map_of snapshot n)) = (r, m)"
      by (simp add: Let_def)
    show ?thesis
    proof (cases "or_zero (map_of snapshot n) < m")
      case True
      from Cons.IH [OF eq True] show ?thesis by auto
    next
      case False
      from best_loop_ge [of "(Some n, or_zero (map_of snapshot n))" names snapshot] eq
      have "or_zero (map_of snapshot n) \<le> m" by simp
      with False have vm: "or_zero (map_of snapshot n) = m" by simp
      then have "\<forall>name\<in>set names. or_zero (map_of snapshot name) \<le> or_zero (map_of snapshot n)"
        using best_loop_upper [of _ names snapshot "(Some n, or_zero (map_of snapshot n))"] eq
        by auto
      from best_loop_unchanged [OF this, of "Some n"] eq vm show ?thesis by auto
    qed
  next
    case False
    with Cons.prems have "best_loop names snapshot (bn, bv) = (r, m)" by (simp add: Let_def)
    from Cons.IH [OF this Cons.prems(2)] show ?thesis by auto
  qed
qed


subsection \<open>The numbers that the literals of the script denote\<close>

text \<open>
  The recursive equations of \<open>scale_up\<close> and \<open>scale_down\<close> are used on numerals only,
  where the test of the \<open>if\<close> decides before the recursive call is unfolded.
\<close>

lemmas double_eval =
  double_def ulp_def binade_def scale_down.simps scale_up.simps MIN_NORMAL_def
  round_half_even_def Let_def

lemma double_0_8: "double (8/10) = 3602879701896397 / 4503599627370496"
  by (simp add: double_eval split del: if_split)

lemma double_0_4: "double (4/10) = 3602879701896397 / 9007199254740992"
  by (simp add: double_eval split del: if_split)

lemma double_0_9: "double (9/10) = 8106479329266893 / 9007199254740992"
  by (simp add: double_eval split del: if_split)

lemma double_0_05: "double (5/100) = 3602879701896397 / 72057594037927936"
  by (simp add: double_eval split del: if_split)

lemma double_0_25: "double (25/100) = 1/4"
  by (simp add: double_eval split del: if_split)

lemma double_0_2: "double (2/10) = 3602879701896397 / 18014398509481984"
  by (simp add: double_eval split del: if_split)

lemma double_0_275: "double (275/1000) = 2476979795053773 / 9007199254740992"
  by (simp add: double_eval split del: if_split)

lemma double_1020_8: "double (10208/10) = 4489525878534963 / 4398046511104"
  by (simp add: double_eval split del: if_split)

lemma threshold_pos: "0 < double (2/10)"
  unfolding double_0_2 by simp

text \<open>The operations of the worked example, each with its rounding.\<close>

lemma happy_product:
  "js_mul (Num (double (9/10))) (Num (double (4/10))) = Num (6485183463413515 / 18014398509481984)"
  unfolding double_0_9 double_0_4
  by (simp add: rounded_def MAX_VALUE_def double_eval split del: if_split)

lemma happy_factor:
  "js_add (Num (double (8/10))) (Num (6485183463413515 / 18014398509481984))
     = Num (326510972984361 / 281474976710656)"
  unfolding double_0_8
  by (simp add: rounded_def MAX_VALUE_def double_eval split del: if_split)

lemma happy_frequency:
  "js_mul (Num 880) (Num (326510972984361 / 281474976710656))
     = Num (1122381469633741 / 1099511627776)"
  by (simp add: rounded_def MAX_VALUE_def double_eval split del: if_split)

lemma happy_amp_product:
  "js_mul (Num (double (9/10))) (Num (double (25/100))) = Num (8106479329266893 / 36028797018963968)"
  unfolding double_0_9 double_0_25
  by (simp add: rounded_def MAX_VALUE_def double_eval split del: if_split)

lemma happy_amp:
  "js_add (Num (double (5/100))) (Num (8106479329266893 / 36028797018963968))
     = Num (2476979795053773 / 9007199254740992)"
  unfolding double_0_05
  by (simp add: rounded_def MAX_VALUE_def double_eval split del: if_split)

subsection \<open>What a tick does to the history and to the oscillators\<close>

lemma beep_for_dominant_history:
  "beep_for_dominant snapshot (s\<lparr>emotionHistory := h\<rparr>) = (beep_for_dominant snapshot s)\<lparr>emotionHistory := h\<rparr>"
  by (simp add: beep_for_dominant_def triggerBeepForEmotion_def Let_def split: prod.splits option.splits)

lemma oscillators_draw [simp]: "oscillators (draw win s) = oscillators s"
  by (simp add: draw_def)

lemma emotionHistory_draw [simp]: "emotionHistory (draw win s) = emotionHistory s"
  by (simp add: draw_def)

lemma oscillators_tick:
  "oscillators (tick win p outcome s) = oscillators (beep_for_dominant (take_snapshot outcome) s)"
  by (simp add: tick_def Let_def resizeCanvas_def beep_for_dominant_history)

lemma emotionHistory_beep [simp]:
  "emotionHistory (beep_for_dominant snapshot s) = emotionHistory s"
  by (simp add: beep_for_dominant_def triggerBeepForEmotion_def Let_def split: prod.splits option.splits)

lemma emotionHistory_tick:
  "emotionHistory (tick win p outcome s) = emotionHistory s @ [take_snapshot outcome]"
  by (simp add: tick_def Let_def resizeCanvas_def)


lemma dominant_name:
  "0 < snd (dominant snapshot) \<Longrightarrow>
   \<exists>name\<in>set EMOTIONS. dominant snapshot = (Some name, or_zero (map_of snapshot name))"
proof -
  assume a: "0 < snd (dominant snapshot)"
  obtain r m where rm: "best_loop EMOTIONS snapshot (None, 0) = (r, m)"
    by (cases "best_loop EMOTIONS snapshot (None, 0)")
  with a have "0 < m" by (simp add: dominant_def)
  from best_loop_name [OF rm this] rm show ?thesis by (auto simp: dominant_def)
qed

lemma beep_for_dominant_cases:
  "beep_for_dominant snapshot s =
     (if double (2/10) < snd (dominant snapshot)
      then triggerBeepForEmotion (the (fst (dominant snapshot))) (snd (dominant snapshot)) s
      else s)"
proof (cases "double (2/10) < snd (dominant snapshot)")
  case True
  with threshold_pos have "0 < snd (dominant snapshot)" by simp
  from dominant_name [OF this] obtain name where
    n: "name \<in> set EMOTIONS" "dominant snapshot = (Some name, or_zero (map_of snapshot name))"
    by blast
  with True EMOTIONS_nonempty_names [OF n(1)] show ?thesis
    by (simp add: beep_for_dominant_def)
next
  case False
  then show ?thesis
    by (auto simp: beep_for_dominant_def split: prod.splits option.splits)
qed

lemma oscillators_trigger:
  "oscillators (triggerBeepForEmotion name v s) =
     oscillators s @ (if audioInitialized s then
        [(''sine'',
          [Freq (js_mul (to_number (js_or (EMOTION_FREQS_get name) (Number 440)))
                   (js_add (Num (double (8/10))) (js_mul (Num v) (Num (double (4/10)))))),
           Amp (Num 0), Start,
           AmpRamp (js_add (Num (double (5/100))) (js_mul (Num v) (Num (double (25/100)))))
             (double (1/100)),
           AmpRampAt (Num 0) (double (15/100)) (double (5/100)),
           Stop (double (25/100))])] else [])"
  by (simp add: triggerBeepForEmotion_def Let_def)

lemma oscillators_tick_cases:
  "oscillators (tick win p outcome s) =
     oscillators s @
       (if double (2/10) < snd (dominant (take_snapshot outcome)) \<and> audioInitialized s then
        [(''sine'',
          [Freq (js_mul (to_number (js_or (EMOTION_FREQS_get (the (fst (dominant (take_snapshot outcome)))))
                                      (Number 440)))
                   (js_add (Num (double (8/10)))
                      (js_mul (Num (snd (dominant (take_snapshot outcome)))) (Num (double (4/10)))))),
           Amp (Num 0), Start,
           AmpRamp (js_add (Num (double (5/100)))
                      (js_mul (Num (snd (dominant (take_snapshot outcome)))) (Num (double (25/100)))))
             (double (1/100)),
           AmpRampAt (Num 0) (double (15/100)) (double (5/100)),
           Stop (double (25/100))])] else [])"
  unfolding oscillators_tick beep_for_dominant_cases
  by (simp add: oscillators_trigger del: take_snapshot.simps)

subsection \<open>The threshold of the cue\<close>



subsection \<open>The worked example of a cue\<close>

lemma take_happy: "take_snapshot (Resolved (Some (Detection (Some happy_sample)))) = happy_sample"
  by (simp add: happy_sample_def EMOTIONS_def)

lemma dominant_happy: "dominant happy_sample = (Some ''happy'', double (9/10))"
  by (simp add: dominant_def happy_sample_def EMOTIONS_def double_0_9)

lemma happy_base: "to_number (js_or (EMOTION_FREQS_get ''happy'') (Number 440)) = Num 880"
  by (simp add: EMOTION_FREQS_get_def EMOTION_FREQS_def js_or_def)

lemma happy_above_threshold: "double (2/10) < double (9/10)"
  unfolding double_0_2 double_0_9 by simp

lemma happy_frequency_chain:
  "js_mul (Num 880)
     (js_add (Num (double (8/10))) (js_mul (Num (double (9/10))) (Num (double (4/10)))))
   = Num (1122381469633741 / 1099511627776)"
  unfolding happy_product happy_factor happy_frequency ..

lemma happy_amp_chain:
  "js_add (Num (double (5/100))) (js_mul (Num (double (9/10))) (Num (double (25/100))))
   = Num (double (275/1000))"
  unfolding happy_amp_product happy_amp double_0_275 ..

lemma happy_tick:
  "oscillators (tick win p (Resolved (Some (Detection (Some happy_sample)))) (s\<lparr>audioInitialized := True\<rparr>))
     = oscillators s @
         [(''sine'',
           [Freq (Num (1122381469633741 / 1099511627776)), Amp (Num 0), Start,
            AmpRamp (Num (double (275/1000))) (double (1/100)),
            AmpRampAt (Num 0) (double (15/100)) (double (5/100)), Stop (double (25/100))])]"
proof -
  have audio: "audioInitialized (s\<lparr>audioInitialized := True\<rparr>) = True"
    and osc: "oscillators (s\<lparr>audioInitialized := True\<rparr>) = oscillators s"
    by simp_all
  show ?thesis
    unfolding oscillators_tick_cases take_happy dominant_happy
    by (simp only: fst_conv snd_conv option.sel happy_base happy_above_threshold
        happy_frequency_chain happy_amp_chain audio osc simp_thms if_True)
qed

text \<open>
  The frequency that the oscillator is given is not 1020.8, nor the double that
  \<^verbatim>\<open>1020.8\<close> denotes: the product \<^verbatim>\<open>0.9 * 0.4\<close> and the sum with \<^verbatim>\<open>0.8\<close> are
  rounded up, and 880 times the result rounds to the next double but one.
\<close>

theorem happy_frequency_is_rounded:
  "oscillators (tick \<lparr>innerWidth = 800, innerHeight = 600\<rparr> True
      (Resolved (Some (Detection (Some happy_sample))))
      (mousePressed False (script_loaded 100 (Some 100))))
     = [(''sine'',
           [Freq (Num (1122381469633741 / 1099511627776)), Amp (Num 0), Start,
            AmpRamp (Num (double (275/1000))) (double (1/100)),
            AmpRampAt (Num 0) (double (15/100)) (double (5/100)), Stop (double (25/100))])]
   \<and> (1122381469633741 / 1099511627776 :: real) \<noteq> 10208 / 10
   \<and> (1122381469633741 / 1099511627776 :: real) \<noteq> double (10208 / 10)"
proof -
  let ?s = "mousePressed False (script_loaded 100 (Some 100))"
  have s: "?s = (?s)\<lparr>audioInitialized := True\<rparr>" "oscillators ?s = []"
    by (simp_all add: mousePressed_def script_loaded_def)
  from happy_tick [of "\<lparr>innerWidth = 800, innerHeight = 600\<rparr>" True ?s] s
  have a: "oscillators (tick \<lparr>innerWidth = 800, innerHeight = 600\<rparr> True
      (Resolved (Some (Detection (Some happy_sample)))) ?s)
     = [(''sine'',
           [Freq (Num (1122381469633741 / 1099511627776)), Amp (Num 0), Start,
            AmpRamp (Num (double (275/1000))) (double (1/100)),
            AmpRampAt (Num 0) (double (15/100)) (double (5/100)), Stop (double (25/100))])]"
    by simp
  have b: "(1122381469633741 / 1099511627776 :: real) \<noteq> 10208 / 10" by simp
  have c: "(1122381469633741 / 1099511627776 :: real) \<noteq> double (10208 / 10)"
    unfolding double_1020_8 by simp
  from a b c show ?thesis by blast
qed

text \<open>
  C1 (amended). For the sample with \<open>happy\<close> at 0.9 and every other label at 0, the loop
  selects \<open>happy\<close> with intensity 0.9; the table gives \<open>happy\<close> the base frequency 880;
  and with the audio unlocked the tick creates one sine oscillator whose frequency is
  880 * (0.8 + 0.9 * 0.4) in double-precision arithmetic, which is 1020.8 + 1 / 5497558138880
  (printed 1020.8000000000002), and whose target amplitude is 0.05 + 0.9 * 0.25 in
  double-precision arithmetic, which is the number that \<^verbatim>\<open>0.275\<close> denotes.
\<close>

theorem happy_cue:
  "dominant (take_snapshot (Resolved (Some (Detection (Some happy_sample))))) = (Some ''happy'', double (9/10))
   \<and> map_of EMOTION_FREQS ''happy'' = Some 880
   \<and> oscillators (tick win p (Resolved (Some (Detection (Some happy_sample)))) (s\<lparr>audioInitialized := True\<rparr>))
       = oscillators s @
         [(''sine'',
           [Freq (js_mul (Num 880)
                    (js_add (Num (double (8/10))) (js_mul (Num (double (9/10))) (Num (double (4/10)))))),
            Amp (Num 0), Start,
            AmpRamp (js_add (Num (double (5/100))) (js_mul (Num (double (9/10))) (Num (double (25/100)))))
              (double (1/100)),
            AmpRampAt (Num 0) (double (15/100)) (double (5/100)), Stop (double (25/100))])]
   \<and> js_mul (Num 880)
        (js_add (Num (double (8/10))) (js_mul (Num (double (9/10))) (Num (double (4/10)))))
       = Num (10208 / 10 + 1 / 5497558138880)
   \<and> js_add (Num (double (5/100))) (js_mul (Num (double (9/10))) (Num (double (25/100))))
       = Num (double (275/1000))"
proof -
  have table: "map_of EMOTION_FREQS ''happy'' = Some 880"
    by (simp add: EMOTION_FREQS_def)
  have shift: "(1122381469633741 / 1099511627776 :: real) = 10208 / 10 + 1 / 5497558138880"
    by simp
  have freq: "js_mul (Num 880)
        (js_add (Num (double (8/10))) (js_mul (Num (double (9/10))) (Num (double (4/10)))))
       = Num (10208 / 10 + 1 / 5497558138880)"
    unfolding happy_frequency_chain shift ..
  have osc: "oscillators (tick win p (Resolved (Some (Detection (Some happy_sample)))) (s\<lparr>audioInitialized := True\<rparr>))
       = oscillators s @
         [(''sine'',
           [Freq (js_mul (Num 880)
                    (js_add (Num (double (8/10))) (js_mul (Num (double (9/10))) (Num (double (4/10)))))),
            Amp (Num 0), Start,
            AmpRamp (js_add (Num (double (5/100))) (js_mul (Num (double (9/10))) (Num (double (25/100)))))
              (double (1/100)),
            AmpRampAt (Num 0) (double (15/100)) (double (5/100)), Stop (double (25/100))])]"
    unfolding happy_frequency_chain happy_amp_chain by (rule happy_tick)
  have dom: "dominant (take_snapshot (Resolved (Some (Detection (Some happy_sample))))) = (Some ''happy'', double (9/10))"
    unfolding take_happy by (rule dominant_happy)
  from dom table osc freq happy_amp_chain show ?thesis by blast
qed

subsection \<open>Ties between labels\<close>

text \<open>
  The sample of a tick without a face has all seven labels at 0: they all share the
  maximum, and the loop, which starts from \<^verbatim>\<open>bestVal = 0\<close> and compares with
  \<^verbatim>\<open>>\<close>, selects none of them.
\<close>

theorem all_zero_sample_selects_no_label:
  "take_snapshot (Resolved None) =
     [(''neutral'', 0), (''happy'', 0), (''sad'', 0), (''angry'', 0),
      (''fearful'', 0), (''disgusted'', 0), (''surprised'', 0)]
   \<and> reading (take_snapshot (Resolved None)) ''neutral'' = reading (take_snapshot (Resolved None)) ''happy''
   \<and> dominant (take_snapshot (Resolved None)) = (None, 0)
   \<and> fst (dominant (take_snapshot (Resolved None))) \<noteq> Some ''neutral''"
  by (simp add: zeros_def EMOTIONS_def dominant_def reading_def)

text \<open>
  C3 (amended). If the label at position \<open>i\<close> of \<open>EMOTIONS\<close> has the maximum reading
  of the sample, every earlier label has a strictly smaller one, and that maximum is
  above 0, then the loop selects this label with this reading: among labels that share a
  positive maximum the first in the fixed order wins. If no reading is above 0, no label
  is selected and \<^verbatim>\<open>bestVal\<close> stays 0.
\<close>

theorem dominant_first_of_ties:
  "(i < length EMOTIONS
      \<and> (\<forall>j<length EMOTIONS. reading snapshot (EMOTIONS ! j) \<le> reading snapshot (EMOTIONS ! i))
      \<and> (\<forall>j<i. reading snapshot (EMOTIONS ! j) < reading snapshot (EMOTIONS ! i))
      \<and> 0 < reading snapshot (EMOTIONS ! i)
    \<longrightarrow> dominant snapshot = (Some (EMOTIONS ! i), reading snapshot (EMOTIONS ! i)))
   \<and> ((\<forall>name\<in>set EMOTIONS. reading snapshot name \<le> 0) \<longrightarrow> dominant snapshot = (None, 0))"
proof (rule conjI)
  show "i < length EMOTIONS
      \<and> (\<forall>j<length EMOTIONS. reading snapshot (EMOTIONS ! j) \<le> reading snapshot (EMOTIONS ! i))
      \<and> (\<forall>j<i. reading snapshot (EMOTIONS ! j) < reading snapshot (EMOTIONS ! i))
      \<and> 0 < reading snapshot (EMOTIONS ! i)
    \<longrightarrow> dominant snapshot = (Some (EMOTIONS ! i), reading snapshot (EMOTIONS ! i))"
    unfolding dominant_def reading_def
    using best_loop_first_max [of i EMOTIONS snapshot 0 None] by blast
next
  show "(\<forall>name\<in>set EMOTIONS. reading snapshot name \<le> 0) \<longrightarrow> dominant snapshot = (None, 0)"
    unfolding dominant_def reading_def
    using best_loop_unchanged [of EMOTIONS snapshot 0 None] by blast
qed

theorem dominant_first_of_ties_witness:
  "dominant [(''neutral'', 1/10), (''happy'', 1/2), (''sad'', 0), (''angry'', 1/2),
             (''fearful'', 0), (''disgusted'', 1/2), (''surprised'', 0)]
   = (Some ''happy'', 1/2)
   \<and> dominant [(''neutral'', 0), (''happy'', 0)] = (None, 0)"
proof -
  let ?snap = "[(''neutral'', 1/10), (''happy'', 1/2), (''sad'', 0), (''angry'', 1/2),
             (''fearful'', 0), (''disgusted'', 1/2), (''surprised'', 0)] :: snapshot"
  let ?low = "[(''neutral'', 0), (''happy'', 0)] :: snapshot"
  have len: "(1::nat) < length EMOTIONS" by (simp add: EMOTIONS_def)
  have le: "\<forall>j<length EMOTIONS. reading ?snap (EMOTIONS ! j) \<le> reading ?snap (EMOTIONS ! 1)"
    by (auto simp: EMOTIONS_def reading_def less_Suc_eq)
  have lt: "\<forall>j<1. reading ?snap (EMOTIONS ! j) < reading ?snap (EMOTIONS ! 1)"
    by (simp add: EMOTIONS_def reading_def)
  have pos: "0 < reading ?snap (EMOTIONS ! 1)"
    by (simp add: EMOTIONS_def reading_def)
  have at: "EMOTIONS ! 1 = ''happy''" "reading ?snap ''happy'' = 1/2"
    by (simp_all add: EMOTIONS_def reading_def)
  from dominant_first_of_ties [of 1 ?snap] len le lt pos
  have "dominant ?snap = (Some (EMOTIONS ! 1), reading ?snap (EMOTIONS ! 1))" by blast
  with at have first: "dominant ?snap = (Some ''happy'', 1/2)" by simp
  have "\<forall>name\<in>set EMOTIONS. reading ?low name \<le> 0"
    by (simp add: EMOTIONS_def reading_def)
  with dominant_first_of_ties [of 0 ?low] have "dominant ?low = (None, 0)" by blast
  with first show ?thesis by simp
qed

subsection \<open>The history only grows\<close>

lemma emotionHistory_step: "emotionHistory (step ev s) = emotionHistory s @ samples_of [ev]"
  by (cases ev)
    (simp_all add: emotionHistory_tick p5_setup_def mousePressed_def draw_def
      windowResized_def resizeCanvas_def draw_def Let_def)

lemma samples_of_Cons: "samples_of (ev # evs) = samples_of [ev] @ samples_of evs"
  by (cases ev) simp_all

lemma emotionHistory_run: "emotionHistory (run evs s) = emotionHistory s @ samples_of evs"
proof (induction evs arbitrary: s)
  case Nil
  then show ?case by (simp add: run_def)
next
  case (Cons ev evs)
  have "emotionHistory (run (ev # evs) s) = emotionHistory (run evs (step ev s))"
    by (simp add: run_def)
  also have "\<dots> = emotionHistory (step ev s) @ samples_of evs" by (rule Cons.IH)
  also have "\<dots> = emotionHistory s @ samples_of [ev] @ samples_of evs"
    by (simp add: emotionHistory_step)
  finally show ?case by (simp add: samples_of_Cons [of ev evs])
qed

lemma length_samples_of: "length (samples_of evs) = length (filter is_tick evs)"
  by (induction evs rule: samples_of.induct) simp_all

text \<open>
  C6. A tick appends exactly one snapshot, its own, to the history. After any sequence
  of callbacks (setup, mouse press, tick, draw, window resize) the history is the one
  before followed by the snapshots of the ticks, in order: nothing is removed, truncated
  or reordered, its length never decreases, it grows by the number of ticks, and from
  the freshly loaded script it equals the number of ticks.
\<close>

theorem history_append_only:
  "emotionHistory (tick win p outcome s) = emotionHistory s @ [take_snapshot outcome]
   \<and> emotionHistory (run evs s) = emotionHistory s @ samples_of evs
   \<and> length (emotionHistory s) \<le> length (emotionHistory (run evs s))
   \<and> length (emotionHistory (run evs s)) = length (emotionHistory s) + length (filter is_tick evs)
   \<and> length (emotionHistory (run evs (script_loaded w h))) = length (filter is_tick evs)"
  by (simp add: emotionHistory_tick emotionHistory_run length_samples_of script_loaded_def)

subsection \<open>Ticks whose detection fails\<close>

lemma dominant_zeros: "dominant zeros = (None, 0)"
  by (simp add: zeros_def EMOTIONS_def dominant_def)

lemma zeros_literal:
  "zeros = [(''neutral'', 0), (''happy'', 0), (''sad'', 0), (''angry'', 0),
            (''fearful'', 0), (''disgusted'', 0), (''surprised'', 0)]"
  by (simp add: zeros_def EMOTIONS_def)

lemma tick_zeros:
  "take_snapshot outcome = zeros \<Longrightarrow>
   tick win p outcome s =
     (let s1 = s\<lparr>emotionHistory := emotionHistory s @ [zeros]\<rparr>;
          needed = neededWidth (innerWidth win) (length (emotionHistory s1))
      in if p \<and> width s1 \<noteq> needed
         then draw win (s1\<lparr>width := needed, height := canvasHeight s1\<rparr>) else s1)"
  by (simp add: tick_def Let_def beep_for_dominant_def dominant_zeros resizeCanvas_def)

lemma console_tick: "console (tick win p outcome s) = console s"
  by (simp add: tick_def Let_def resizeCanvas_def draw_def beep_for_dominant_def
      triggerBeepForEmotion_def split: prod.splits option.splits)

text \<open>
  C5. When the detection throws, finds no face, or returns a detection without
  expressions, the tick appends the snapshot with all seven labels at 0, creates no
  oscillator and leaves the audio flag and the stored canvas height as they were; the
  three failures give the same state, which is the state with the zero snapshot
  appended, resized and redrawn if the canvas width is not the required one. Nothing is
  written to the console, by this tick or by a tick with any other outcome, and the tick
  that follows appends its own snapshot after the zero one.
\<close>

theorem failed_detection_gives_zeros:
  "outcome \<in> {Threw, Resolved None, Resolved (Some (Detection None))} \<Longrightarrow>
   emotionHistory (tick win p outcome s) =
     emotionHistory s @
       [[(''neutral'', 0), (''happy'', 0), (''sad'', 0), (''angry'', 0),
         (''fearful'', 0), (''disgusted'', 0), (''surprised'', 0)]]
   \<and> console (tick win p outcome s) = console s
   \<and> oscillators (tick win p outcome s) = oscillators s
   \<and> audioInitialized (tick win p outcome s) = audioInitialized s
   \<and> canvasHeight (tick win p outcome s) = canvasHeight s
   \<and> tick win p outcome s = tick win p Threw s
   \<and> tick win p outcome s =
       (let s1 = s\<lparr>emotionHistory := emotionHistory s @ [zeros]\<rparr>;
            needed = neededWidth (innerWidth win) (length (emotionHistory s1))
        in if p \<and> width s1 \<noteq> needed
           then draw win (s1\<lparr>width := needed, height := canvasHeight s1\<rparr>) else s1)
   \<and> console (tick win' p' outcome' s) = console s
   \<and> emotionHistory (tick win' p' outcome' (tick win p outcome s)) =
       emotionHistory s @
         [[(''neutral'', 0), (''happy'', 0), (''sad'', 0), (''angry'', 0),
           (''fearful'', 0), (''disgusted'', 0), (''surprised'', 0)],
          take_snapshot outcome']"
proof -
  assume "outcome \<in> {Threw, Resolved None, Resolved (Some (Detection None))}"
  then have z: "take_snapshot outcome = zeros" by auto
  have t: "take_snapshot Threw = zeros" by simp
  note eq = tick_zeros [OF z, of win p s]
  have same: "tick win p outcome s = tick win p Threw s"
    unfolding tick_zeros [OF z] tick_zeros [OF t] ..
  have hist: "emotionHistory (tick win p outcome s) = emotionHistory s @ [zeros]"
    by (simp add: emotionHistory_tick z del: take_snapshot.simps)
  have osc: "oscillators (tick win p outcome s) = oscillators s"
    unfolding eq by (simp add: Let_def)
  have audio: "audioInitialized (tick win p outcome s) = audioInitialized s"
    unfolding eq by (simp add: Let_def draw_def)
  have ch: "canvasHeight (tick win p outcome s) = canvasHeight s"
    unfolding eq by (simp add: Let_def draw_def)
  have next_tick: "emotionHistory (tick win' p' outcome' (tick win p outcome s)) =
       emotionHistory s @ [zeros, take_snapshot outcome']"
    by (simp add: emotionHistory_tick z del: take_snapshot.simps)
  from hist console_tick [of win p outcome s] osc audio ch same eq
    console_tick [of win' p' outcome' s] next_tick
  show ?thesis unfolding zeros_literal by blast
qed

theorem failed_detection_gives_zeros_witness:
  "emotionHistory (tick \<lparr>innerWidth = 800, innerHeight = 600\<rparr> True Threw (script_loaded 100 (Some 100))) =
       [[(''neutral'', 0), (''happy'', 0), (''sad'', 0), (''angry'', 0),
         (''fearful'', 0), (''disgusted'', 0), (''surprised'', 0)]]
   \<and> console (tick \<lparr>innerWidth = 800, innerHeight = 600\<rparr> True Threw (script_loaded 100 (Some 100))) = []
   \<and> oscillators (tick \<lparr>innerWidth = 800, innerHeight = 600\<rparr> True Threw (script_loaded 100 (Some 100))) = []
   \<and> tick \<lparr>innerWidth = 800, innerHeight = 600\<rparr> True (Resolved None) (script_loaded 100 (Some 100))
       = tick \<lparr>innerWidth = 800, innerHeight = 600\<rparr> True Threw (script_loaded 100 (Some 100))"
proof -
  let ?w = "\<lparr>innerWidth = 800, innerHeight = 600\<rparr>"
  let ?s = "script_loaded 100 (Some 100)"
  have a: "Threw \<in> {Threw, Resolved None, Resolved (Some (Detection None))}" by simp
  have b: "Resolved None \<in> {Threw, Resolved None, Resolved (Some (Detection None))}" by simp
  have s: "emotionHistory ?s = []" "console ?s = []" "oscillators ?s = []"
    by (simp_all add: script_loaded_def)
  note th = failed_detection_gives_zeros [OF a, of ?w True ?s ?w True Threw]
  from th have "emotionHistory (tick ?w True Threw ?s) =
       emotionHistory ?s @ [[(''neutral'', 0), (''happy'', 0), (''sad'', 0), (''angry'', 0),
         (''fearful'', 0), (''disgusted'', 0), (''surprised'', 0)]]"
    and "console (tick ?w True Threw ?s) = console ?s"
    and "oscillators (tick ?w True Threw ?s) = oscillators ?s"
    by blast+
  with s have "emotionHistory (tick ?w True Threw ?s) =
       [[(''neutral'', 0), (''happy'', 0), (''sad'', 0), (''angry'', 0),
         (''fearful'', 0), (''disgusted'', 0), (''surprised'', 0)]]"
    and "console (tick ?w True Threw ?s) = []"
    and "oscillators (tick ?w True Threw ?s) = []"
    by simp_all
  moreover from failed_detection_gives_zeros [OF b, of ?w True ?s ?w True Threw]
  have "tick ?w True (Resolved None) ?s = tick ?w True Threw ?s" by blast
  ultimately show ?thesis by blast
qed

subsection \<open>Every sample has the seven labels, each in the unit interval\<close>

lemma complete_zeros: "complete_sample zeros"
  by (simp add: complete_sample_def zeros_def EMOTIONS_def)

lemma or_zero_range:
  "(case x of None \<Rightarrow> True | Some v \<Rightarrow> 0 \<le> v \<and> v \<le> 1) \<Longrightarrow> 0 \<le> or_zero x \<and> or_zero x \<le> 1"
  by (cases x) simp_all

lemma complete_take_snapshot:
  "scores_in_unit_interval outcome \<Longrightarrow> complete_sample (take_snapshot outcome)"
proof (induction outcome rule: take_snapshot.induct)
  case (1 ex)
  then have "\<forall>name\<in>set EMOTIONS. 0 \<le> or_zero (map_of ex name) \<and> or_zero (map_of ex name) \<le> 1"
    using or_zero_range [of "map_of ex _"] by (simp add: list_all_iff)
  then show ?case
    unfolding take_snapshot_face complete_sample_def
    by (simp add: list_all_iff comp_def)
qed (simp_all add: complete_zeros)

lemma complete_samples_of:
  "\<forall>ev\<in>set evs. event_scores_in_unit_interval ev \<Longrightarrow>
   \<forall>snapshot\<in>set (samples_of evs). complete_sample snapshot"
  by (induction evs rule: samples_of.induct) (simp_all add: complete_take_snapshot)

lemma take_snapshot_default:
  "name \<in> set EMOTIONS \<Longrightarrow> map_of ex name = None \<Longrightarrow>
   map_of (take_snapshot (Resolved (Some (Detection (Some ex))))) name = Some 0"
  unfolding take_snapshot_face
  by (simp add: map_of_map_restrict restrict_map_def del: take_snapshot.simps)

lemma take_snapshot_present:
  "name \<in> set EMOTIONS \<Longrightarrow> map_of ex name = Some v \<Longrightarrow>
   map_of (take_snapshot (Resolved (Some (Detection (Some ex))))) name = Some v"
  unfolding take_snapshot_face
  by (simp add: map_of_map_restrict restrict_map_def del: take_snapshot.simps)

text \<open>
  C4. If every score that the detection library reports for one of the seven labels lies
  between 0 and 1, then after any sequence of callbacks from the freshly loaded script
  every sample in the history has exactly the seven labels, each with a value between 0
  and 1. A label that the reported expressions do not have is stored as 0, and one they
  have keeps its score.
\<close>

theorem samples_in_history_complete:
  "((\<forall>ev\<in>set evs. event_scores_in_unit_interval ev)
      \<longrightarrow> (\<forall>snapshot\<in>set (emotionHistory (run evs (script_loaded w h))). complete_sample snapshot))
   \<and> (name \<in> set EMOTIONS \<and> map_of ex name = None
      \<longrightarrow> map_of (take_snapshot (Resolved (Some (Detection (Some ex))))) name = Some 0)
   \<and> (name \<in> set EMOTIONS \<and> map_of ex name = Some v
      \<longrightarrow> map_of (take_snapshot (Resolved (Some (Detection (Some ex))))) name = Some v)"
proof (intro conjI impI)
  assume "\<forall>ev\<in>set evs. event_scores_in_unit_interval ev"
  then have "\<forall>snapshot\<in>set (samples_of evs). complete_sample snapshot"
    by (rule complete_samples_of)
  then show "\<forall>snapshot\<in>set (emotionHistory (run evs (script_loaded w h))). complete_sample snapshot"
    by (simp add: emotionHistory_run script_loaded_def)
next
  assume "name \<in> set EMOTIONS \<and> map_of ex name = None"
  then show "map_of (take_snapshot (Resolved (Some (Detection (Some ex))))) name = Some 0"
    using take_snapshot_default by blast
next
  assume "name \<in> set EMOTIONS \<and> map_of ex name = Some v"
  then show "map_of (take_snapshot (Resolved (Some (Detection (Some ex))))) name = Some v"
    using take_snapshot_present by blast
qed

theorem samples_in_history_complete_witness:
  "event_scores_in_unit_interval
     (Tick \<lparr>innerWidth = 800, innerHeight = 600\<rparr> True
        (Resolved (Some (Detection (Some [(''happy'', 9/10), (''sad'', 1/10)])))))
   \<and> event_scores_in_unit_interval (Tick \<lparr>innerWidth = 800, innerHeight = 600\<rparr> True Threw)
   \<and> list_all complete_sample
       (emotionHistory
          (run [Tick \<lparr>innerWidth = 800, innerHeight = 600\<rparr> True
                  (Resolved (Some (Detection (Some [(''happy'', 9/10), (''sad'', 1/10)])))),
                Tick \<lparr>innerWidth = 800, innerHeight = 600\<rparr> True Threw]
             (script_loaded 100 (Some 100))))
   \<and> map_of (take_snapshot (Resolved (Some (Detection (Some [(''happy'', 9/10), (''sad'', 1/10)])))))
        ''angry'' = Some 0
   \<and> map_of (take_snapshot (Resolved (Some (Detection (Some [(''happy'', 9/10), (''sad'', 1/10)])))))
        ''happy'' = Some (9/10)"
proof -
  let ?w = "\<lparr>innerWidth = 800, innerHeight = 600\<rparr>"
  let ?ex = "[(''happy'', 9/10), (''sad'', 1/10)] :: expressions"
  let ?evs = "[Tick ?w True (Resolved (Some (Detection (Some ?ex)))), Tick ?w True Threw]"
  have a: "event_scores_in_unit_interval (Tick ?w True (Resolved (Some (Detection (Some ?ex)))))"
    by (simp add: EMOTIONS_def)
  have b: "event_scores_in_unit_interval (Tick ?w True Threw)" by simp
  from a b have all: "\<forall>ev\<in>set ?evs. event_scores_in_unit_interval ev" by simp
  have angry: "''angry'' \<in> set EMOTIONS \<and> map_of ?ex ''angry'' = None"
    by (simp add: EMOTIONS_def)
  have happy: "''happy'' \<in> set EMOTIONS \<and> map_of ?ex ''happy'' = Some (9/10)"
    by (simp add: EMOTIONS_def)
  from samples_in_history_complete [of ?evs 100 "Some 100" "''angry''" ?ex 0] all angry
  have c: "list_all complete_sample (emotionHistory (run ?evs (script_loaded 100 (Some 100))))"
    and d: "map_of (take_snapshot (Resolved (Some (Detection (Some ?ex))))) ''angry'' = Some 0"
    unfolding list_all_iff by blast+
  from samples_in_history_complete [of ?evs 100 "Some 100" "''happy''" ?ex "9/10"] happy
  have e: "map_of (take_snapshot (Resolved (Some (Detection (Some ?ex))))) ''happy'' = Some (9/10)"
    by blast
  from a b c d e show ?thesis by blast
qed

subsection \<open>The width of the canvas\<close>

lemma neededWidth_mono: "n \<le> m \<Longrightarrow> neededWidth vw n \<le> neededWidth vw m"
  by (auto simp: neededWidth_def COL_WIDTH_def max_def)

lemma width_beep [simp]: "width (beep_for_dominant snapshot s) = width s"
  by (simp add: beep_for_dominant_def triggerBeepForEmotion_def Let_def split: prod.splits option.splits)

lemma width_tick:
  "width (tick win p outcome s) =
     (if p then neededWidth (innerWidth win) (Suc (length (emotionHistory s))) else width s)"
  by (simp add: tick_def Let_def resizeCanvas_def draw_def)

lemma width_windowResized:
  "width (windowResized win s) = neededWidth (innerWidth win) (length (emotionHistory s))"
  by (simp add: windowResized_def Let_def resizeCanvas_def draw_def)

lemma width_p5_setup: "width (p5_setup win s) = innerWidth win"
  by (simp add: p5_setup_def Let_def)

text \<open>
  The invariant of the canvas at a fixed viewport width: it is never wider than the
  width required so far. Each callback but \<^verbatim>\<open>setup\<close> keeps it, and under it no
  callback makes the canvas narrower.
\<close>

lemma step_keeps_bound:
  assumes "at_viewport_width vw ev"
    and "width s \<le> neededWidth vw (length (emotionHistory s))"
  shows "width (step ev s) \<le> neededWidth vw (length (emotionHistory (step ev s)))"
proof (cases ev)
  case (Setup win)
  with assms(1) show ?thesis by simp
next
  case (MousePressed b)
  with assms(2) show ?thesis by (simp add: mousePressed_def)
next
  case (Tick win p outcome)
  with assms(1) have vw: "innerWidth win = vw" by simp
  have "neededWidth vw (length (emotionHistory s)) \<le> neededWidth vw (Suc (length (emotionHistory s)))"
    by (rule neededWidth_mono) simp
  with assms(2) Tick vw show ?thesis
    by (simp add: width_tick emotionHistory_tick)
next
  case (Draw win)
  with assms(2) show ?thesis by (auto simp: draw_def)
next
  case (WindowResized win)
  with assms(1) have vw: "innerWidth win = vw" by simp
  have "emotionHistory (windowResized win s) = emotionHistory s"
    by (simp add: windowResized_def Let_def resizeCanvas_def draw_def)
  with WindowResized vw show ?thesis by (simp add: width_windowResized)
qed

lemma step_never_shrinks:
  assumes "at_viewport_width vw ev"
    and "width s \<le> neededWidth vw (length (emotionHistory s))"
  shows "width s \<le> width (step ev s)"
proof (cases ev)
  case (Setup win)
  with assms(1) show ?thesis by simp
next
  case (MousePressed b)
  then show ?thesis by (simp add: mousePressed_def)
next
  case (Tick win p outcome)
  with assms(1) have vw: "innerWidth win = vw" by simp
  have "neededWidth vw (length (emotionHistory s)) \<le> neededWidth vw (Suc (length (emotionHistory s)))"
    by (rule neededWidth_mono) simp
  with assms(2) Tick vw show ?thesis by (simp add: width_tick)
next
  case (Draw win)
  then show ?thesis by (simp add: draw_def)
next
  case (WindowResized win)
  with assms(1) have vw: "innerWidth win = vw" by simp
  with assms(2) WindowResized show ?thesis by (simp add: width_windowResized)
qed

lemma widths_sorted:
  "\<forall>ev\<in>set evs. at_viewport_width vw ev \<Longrightarrow>
   width s \<le> neededWidth vw (length (emotionHistory s)) \<Longrightarrow>
   sorted (width s # widths evs s)"
proof (induction evs arbitrary: s)
  case Nil
  then show ?case by simp
next
  case (Cons ev evs)
  from Cons.prems have ev: "at_viewport_width vw ev" and rest: "\<forall>e\<in>set evs. at_viewport_width vw e"
    by simp_all
  from step_keeps_bound [OF ev Cons.prems(2)]
  have "sorted (width (step ev s) # widths evs (step ev s))"
    by (rule Cons.IH [OF rest])
  moreover from step_never_shrinks [OF ev Cons.prems(2)] have "width s \<le> width (step ev s)" .
  ultimately show ?case by auto
qed

text \<open>
  When the viewport gets narrower the canvas does too: after \<^verbatim>\<open>setup\<close> and a tick
  at a viewport of 1000 pixels the canvas is 1000 wide; the resize handler at a viewport
  of 500 pixels sets it to 500, and the next tick leaves it there, while the history has
  grown to two samples.
\<close>

theorem canvas_shrinks_with_viewport:
  "widths [Setup \<lparr>innerWidth = 1000, innerHeight = 800\<rparr>,
           Tick \<lparr>innerWidth = 1000, innerHeight = 800\<rparr> True (Resolved None),
           WindowResized \<lparr>innerWidth = 500, innerHeight = 800\<rparr>,
           Tick \<lparr>innerWidth = 500, innerHeight = 800\<rparr> True (Resolved None)]
      (script_loaded 100 (Some 100)) = [1000, 1000, 500, 500]
   \<and> length (emotionHistory
        (run [Setup \<lparr>innerWidth = 1000, innerHeight = 800\<rparr>,
              Tick \<lparr>innerWidth = 1000, innerHeight = 800\<rparr> True (Resolved None),
              WindowResized \<lparr>innerWidth = 500, innerHeight = 800\<rparr>,
              Tick \<lparr>innerWidth = 500, innerHeight = 800\<rparr> True (Resolved None)]
           (script_loaded 100 (Some 100)))) = 2"
  by (simp add: width_tick width_windowResized width_p5_setup emotionHistory_run
      emotionHistory_tick neededWidth_def COL_WIDTH_def script_loaded_def
      p5_setup_def windowResized_def resizeCanvas_def draw_def Let_def)

text \<open>
  C7 (amended). The required width for \<open>n\<close> samples is the larger of the viewport
  width and \<open>6 n\<close>, and for a fixed viewport width it does not decrease as \<open>n\<close>
  grows. A tick that finds \<^verbatim>\<open>resizeCanvas\<close> leaves the canvas at the width required
  for the history it has just extended (one that does not find it leaves the width
  alone), and the resize handler sets the canvas to the required width. While the
  viewport width stays what it was at \<^verbatim>\<open>setup\<close>, the widths of the canvas after
  \<^verbatim>\<open>setup\<close> and after each later callback never decrease.
\<close>

theorem canvas_width_rule:
  "neededWidth viewportWidth n = max viewportWidth (n * 6)
   \<and> (n \<le> m \<longrightarrow> neededWidth viewportWidth n \<le> neededWidth viewportWidth m)
   \<and> width (tick win True outcome s)
       = neededWidth (innerWidth win) (length (emotionHistory (tick win True outcome s)))
   \<and> width (tick win False outcome s) = width s
   \<and> width (windowResized win s) = neededWidth (innerWidth win) (length (emotionHistory s))
   \<and> ((\<forall>ev\<in>set evs. at_viewport_width (innerWidth win) ev)
        \<longrightarrow> sorted (widths (Setup win # evs) s))"
proof -
  have mono: "n \<le> m \<longrightarrow> neededWidth viewportWidth n \<le> neededWidth viewportWidth m"
    by (simp add: neededWidth_mono)
  have run: "(\<forall>ev\<in>set evs. at_viewport_width (innerWidth win) ev)
        \<longrightarrow> sorted (widths (Setup win # evs) s)"
  proof
    assume evs: "\<forall>ev\<in>set evs. at_viewport_width (innerWidth win) ev"
    have "width (p5_setup win s) \<le> neededWidth (innerWidth win) (length (emotionHistory (p5_setup win s)))"
      by (simp add: width_p5_setup neededWidth_def)
    from widths_sorted [OF evs this] show "sorted (widths (Setup win # evs) s)" by simp
  qed
  have def: "neededWidth viewportWidth n = max viewportWidth (n * 6)"
    by (simp add: neededWidth_def COL_WIDTH_def)
  from def mono run show ?thesis
    by (simp add: width_tick emotionHistory_tick width_windowResized)
qed

theorem canvas_width_rule_witness:
  "neededWidth 1000 10 \<le> neededWidth 1000 200
   \<and> neededWidth 1000 200 = 1200
   \<and> sorted (widths [Setup \<lparr>innerWidth = 10, innerHeight = 800\<rparr>,
           Tick \<lparr>innerWidth = 10, innerHeight = 800\<rparr> True (Resolved None),
           Tick \<lparr>innerWidth = 10, innerHeight = 700\<rparr> True Threw,
           WindowResized \<lparr>innerWidth = 10, innerHeight = 700\<rparr>,
           Tick \<lparr>innerWidth = 10, innerHeight = 700\<rparr> True Threw]
      (script_loaded 100 (Some 100)))
   \<and> widths [Setup \<lparr>innerWidth = 10, innerHeight = 800\<rparr>,
           Tick \<lparr>innerWidth = 10, innerHeight = 800\<rparr> True (Resolved None),
           Tick \<lparr>innerWidth = 10, innerHeight = 700\<rparr> True Threw,
           WindowResized \<lparr>innerWidth = 10, innerHeight = 700\<rparr>,
           Tick \<lparr>innerWidth = 10, innerHeight = 700\<rparr> True Threw]
      (script_loaded 100 (Some 100)) = [10, 10, 12, 12, 18]"
proof -
  let ?w = "\<lparr>innerWidth = 10, innerHeight = 800\<rparr>"
  let ?w' = "\<lparr>innerWidth = 10, innerHeight = 700\<rparr>"
  let ?evs = "[Tick ?w True (Resolved None), Tick ?w' True Threw, WindowResized ?w', Tick ?w' True Threw]"
  have evs: "\<forall>ev\<in>set ?evs. at_viewport_width (innerWidth ?w) ev" by simp
  have le: "(10::nat) \<le> 200" by simp
  from canvas_width_rule [of 1000 10 200 ?w Threw "script_loaded 100 (Some 100)" ?evs] evs le
  have a: "neededWidth 1000 10 \<le> neededWidth 1000 200"
    and b: "sorted (widths (Setup ?w # ?evs) (script_loaded 100 (Some 100)))"
    by blast+
  have c: "neededWidth 1000 200 = 1200" by (simp add: neededWidth_def COL_WIDTH_def)
  have d: "widths (Setup ?w # ?evs) (script_loaded 100 (Some 100)) = [10, 10, 12, 12, 18]"
    by (simp add: width_tick width_windowResized width_p5_setup emotionHistory_run
      emotionHistory_tick neededWidth_def COL_WIDTH_def script_loaded_def
      p5_setup_def windowResized_def resizeCanvas_def draw_def Let_def)
  from a b c d show ?thesis by blast
qed

subsection \<open>The colour of a cell\<close>

lemma lerp_mono: "start \<le> stop \<Longrightarrow> v \<le> w \<Longrightarrow> lerp start stop v \<le> lerp start stop w"
  by (simp add: lerp_def mult_right_mono)

lemma lerp_ends: "lerp start stop 0 = start" "lerp start stop 1 = stop"
  by (simp_all add: lerp_def)

lemma brightness_getEmotionColor:
  "brightness (getEmotionColor name v) = (if name = ''neutral'' then lerp 30 80 v else lerp 10 100 v)"
  by (simp add: getEmotionColor_def Let_def)

lemma saturation_getEmotionColor_neutral: "saturation (getEmotionColor ''neutral'' v) = 0"
  by (simp add: getEmotionColor_def Let_def)

lemma unknown_label_color:
  "name \<notin> set EMOTIONS \<Longrightarrow> getEmotionColor name v = HSB 0 0 (10 + 90 * v)"
  by (simp add: getEmotionColor_def EMOTIONS_def Let_def lerp_def)

text \<open>
  C8. \<open>getEmotionColor\<close> is a function of the label and the intensity alone (it reads
  no state). For every label, one of the seven or not, the brightness does not decrease
  when the intensity grows. For \<open>neutral\<close> the colour is grey (hue 0, saturation 0)
  with brightness 30 + (80 - 30) v, which is 30 at intensity 0 and 80 at intensity 1; for
  each of the six other labels the saturation is positive and the brightness is
  10 + (100 - 10) v, which is 10 at intensity 0 and 100 at intensity 1.
\<close>

theorem brightness_monotone:
  "(v \<le> w \<longrightarrow> brightness (getEmotionColor name v) \<le> brightness (getEmotionColor name w))
   \<and> getEmotionColor ''neutral'' v = HSB 0 0 (30 + (80 - 30) * v)
   \<and> (name \<in> set EMOTIONS \<and> name \<noteq> ''neutral''
        \<longrightarrow> brightness (getEmotionColor name v) = 10 + (100 - 10) * v
          \<and> 0 < saturation (getEmotionColor name v))
   \<and> brightness (getEmotionColor ''neutral'' 0) = 30
   \<and> brightness (getEmotionColor ''neutral'' 1) = 80
   \<and> (name \<in> set EMOTIONS \<and> name \<noteq> ''neutral''
        \<longrightarrow> brightness (getEmotionColor name 0) = 10 \<and> brightness (getEmotionColor name 1) = 100)"
proof -
  have mono: "v \<le> w \<longrightarrow> brightness (getEmotionColor name v) \<le> brightness (getEmotionColor name w)"
    by (simp add: brightness_getEmotionColor lerp_mono)
  have grey: "getEmotionColor ''neutral'' v = HSB 0 0 (30 + (80 - 30) * v)"
    by (simp add: getEmotionColor_def lerp_def)
  have coloured: "name \<in> set EMOTIONS \<and> name \<noteq> ''neutral''
        \<longrightarrow> brightness (getEmotionColor name v) = 10 + (100 - 10) * v
          \<and> 0 < saturation (getEmotionColor name v)"
    by (auto simp: getEmotionColor_def EMOTIONS_def Let_def lerp_def)
  have ends: "brightness (getEmotionColor ''neutral'' 0) = 30"
    "brightness (getEmotionColor ''neutral'' 1) = 80"
    by (simp_all add: brightness_getEmotionColor lerp_ends)
  have ends': "name \<in> set EMOTIONS \<and> name \<noteq> ''neutral''
        \<longrightarrow> brightness (getEmotionColor name 0) = 10 \<and> brightness (getEmotionColor name 1) = 100"
    by (simp add: brightness_getEmotionColor lerp_ends)
  from mono grey coloured ends ends' show ?thesis by blast
qed

theorem brightness_monotone_witness:
  "brightness (getEmotionColor ''sad'' (1/4)) \<le> brightness (getEmotionColor ''sad'' (3/4))
   \<and> brightness (getEmotionColor ''sad'' (1/4)) = 65/2
   \<and> brightness (getEmotionColor ''sad'' (3/4)) = 155/2
   \<and> brightness (getEmotionColor ''sad'' 0) = 10
   \<and> brightness (getEmotionColor ''sad'' 1) = 100
   \<and> getEmotionColor ''neutral'' (1/4) = HSB 0 0 (85/2)"
proof -
  have le: "(1/4::real) \<le> 3/4" by simp
  have sad: "''sad'' \<in> set EMOTIONS \<and> ''sad'' \<noteq> ''neutral''" by (simp add: EMOTIONS_def)
  from brightness_monotone [of "1/4" "3/4" "''sad''"] le sad
  have a: "brightness (getEmotionColor ''sad'' (1/4)) \<le> brightness (getEmotionColor ''sad'' (3/4))"
    and b: "brightness (getEmotionColor ''sad'' (1/4)) = 10 + (100 - 10) * (1/4)"
    and c: "brightness (getEmotionColor ''sad'' 0) = 10 \<and> brightness (getEmotionColor ''sad'' 1) = 100"
    and d: "getEmotionColor ''neutral'' (1/4) = HSB 0 0 (30 + (80 - 30) * (1/4))"
    by blast+
  from brightness_monotone [of "3/4" "3/4" "''sad''"] sad
  have e: "brightness (getEmotionColor ''sad'' (3/4)) = 10 + (100 - 10) * (3/4)" by blast
  from a b c d e show ?thesis by simp
qed

subsection \<open>Labels outside the seven\<close>







subsection \<open>Cues before the audio is unlocked\<close>

text \<open>
  C9. While the audio-initialised flag is false, \<open>triggerBeepForEmotion\<close> returns the
  state it was given, whatever the label and the intensity: no oscillator is created and
  nothing else changes.
\<close>

theorem locked_audio_drops_cue:
  "\<not> audioInitialized s \<Longrightarrow> triggerBeepForEmotion name intensity s = s"
  by (simp add: triggerBeepForEmotion_def)

theorem locked_audio_drops_cue_witness:
  "\<not> audioInitialized (script_loaded 100 (Some 100))
   \<and> triggerBeepForEmotion ''happy'' (9/10) (script_loaded 100 (Some 100)) = script_loaded 100 (Some 100)"
  using locked_audio_drops_cue [of "script_loaded 100 (Some 100)" "''happy''" "9/10"]
  by (simp add: script_loaded_def)

end
